theory Spec2Isabelle
  imports Complex_Main
begin

section \<open>Sample values\<close>

text \<open>
  A sample is a NumPy float64. The model keeps the four kinds of value the tests
  distinguish: the missing marker NaN, the two infinities and the finite numbers.
  Finite arithmetic is exact (over the reals): rounding, overflow and the sign of zero
  are not modelled. Every comparison with NaN is false, as in IEEE 754.
\<close>

datatype fval = NaN | NInf | Fin real | PInf

fun isnan :: "fval \<Rightarrow> bool" where
  "isnan NaN = True"
| "isnan _ = False"

text \<open>\<open>notnan x\<close> is \<open>~np.isnan(x)\<close>.\<close>

definition notnan :: "fval \<Rightarrow> bool" where
  "notnan x = (\<not> isnan x)"

fun fabs :: "fval \<Rightarrow> fval" where
  "fabs NaN = NaN"
| "fabs NInf = PInf"
| "fabs (Fin x) = Fin \<bar>x\<bar>"
| "fabs PInf = PInf"

fun fneg :: "fval \<Rightarrow> fval" where
  "fneg NaN = NaN"
| "fneg NInf = PInf"
| "fneg (Fin x) = Fin (- x)"
| "fneg PInf = NInf"

text \<open>\<open>flt a b\<close> is \<open>a < b\<close>, \<open>fgt a b\<close> is \<open>a > b\<close>, \<open>fle a b\<close> is \<open>a <= b\<close>.\<close>

fun flt :: "fval \<Rightarrow> fval \<Rightarrow> bool" where
  "flt NaN _ = False"
| "flt _ NaN = False"
| "flt (Fin x) (Fin y) = (x < y)"
| "flt NInf NInf = False"
| "flt NInf _ = True"
| "flt PInf _ = False"
| "flt (Fin x) PInf = True"
| "flt (Fin x) NInf = False"

definition fgt :: "fval \<Rightarrow> fval \<Rightarrow> bool" where
  "fgt a b = flt b a"

definition feq :: "fval \<Rightarrow> fval \<Rightarrow> bool" where
  "feq a b = (\<not> isnan a \<and> a = b)"

definition fle :: "fval \<Rightarrow> fval \<Rightarrow> bool" where
  "fle a b = (flt a b \<or> feq a b)"

definition fne :: "fval \<Rightarrow> fval \<Rightarrow> bool" where
  "fne a b = (\<not> feq a b)"

fun fadd :: "fval \<Rightarrow> fval \<Rightarrow> fval" where
  "fadd NaN _ = NaN"
| "fadd _ NaN = NaN"
| "fadd (Fin x) (Fin y) = Fin (x + y)"
| "fadd PInf NInf = NaN"
| "fadd NInf PInf = NaN"
| "fadd PInf _ = PInf"
| "fadd _ PInf = PInf"
| "fadd NInf _ = NInf"
| "fadd _ NInf = NInf"

definition fsub :: "fval \<Rightarrow> fval \<Rightarrow> fval" where
  "fsub a b = fadd a (fneg b)"

fun fmul :: "fval \<Rightarrow> fval \<Rightarrow> fval" where
  "fmul NaN _ = NaN"
| "fmul _ NaN = NaN"
| "fmul (Fin x) (Fin y) = Fin (x * y)"
| "fmul (Fin x) i = (if x = 0 then NaN else if 0 < x then i else fneg i)"
| "fmul i (Fin y) = (if y = 0 then NaN else if 0 < y then i else fneg i)"
| "fmul PInf PInf = PInf"
| "fmul NInf NInf = PInf"
| "fmul _ _ = NInf"

text \<open>Division as NumPy does it: a zero divisor gives an infinity, or NaN for \<open>0 / 0\<close>.\<close>

fun fdiv :: "fval \<Rightarrow> fval \<Rightarrow> fval" where
  "fdiv NaN _ = NaN"
| "fdiv _ NaN = NaN"
| "fdiv (Fin x) (Fin y) =
     (if y \<noteq> 0 then Fin (x / y) else if x = 0 then NaN else if 0 < x then PInf else NInf)"
| "fdiv (Fin x) _ = Fin 0"
| "fdiv i (Fin y) = (if 0 \<le> y then i else fneg i)"
| "fdiv _ _ = NaN"

section \<open>Flags\<close>

text \<open>The class \<open>FLAG\<close> of \<open>qaqc.py\<close>, with the integer each member stands for.\<close>

datatype flag = NOT_EVALUATED | PASS | HIGH_INTEREST | SUSPECT | FAIL | MISSING_DATA

fun flag_value :: "flag \<Rightarrow> int" where
  "flag_value NOT_EVALUATED = 0"
| "flag_value PASS = 1"
| "flag_value HIGH_INTEREST = 2"
| "flag_value SUSPECT = 3"
| "flag_value FAIL = 4"
| "flag_value MISSING_DATA = 9"

section \<open>Labelled arrays\<close>

text \<open>
  A one-dimensional \<open>xr.DataArray\<close> over the coordinate \<open>time\<close>: the samples in
  storage order, each with its timestamp (nanoseconds since the epoch, as
  \<open>datetime64[ns]\<close>; the 64-bit range of the timestamps is not modelled).
\<close>

type_synonym 'a series = "(int \<times> 'a) list"

datatype error = ValueError | IndexError | KeyError

text \<open>Sequencing of steps that may raise: the first error ends the computation.\<close>

definition ebind :: "error + 'a \<Rightarrow> ('a \<Rightarrow> error + 'b) \<Rightarrow> error + 'b" where
  "ebind m f = (case m of Inl e \<Rightarrow> Inl e | Inr x \<Rightarrow> f x)"

definition times :: "'a series \<Rightarrow> int list" where
  "times s = map fst s"

definition values_of :: "'a series \<Rightarrow> 'a list" where
  "values_of s = map snd s"

definition da_map :: "('a \<Rightarrow> 'b) \<Rightarrow> 'a series \<Rightarrow> 'b series" where
  "da_map f s = map (\<lambda>(t, x). (t, f x)) s"

definition full_like :: "'a series \<Rightarrow> 'b \<Rightarrow> 'b series" where
  "full_like s v = da_map (\<lambda>_. v) s"

text \<open>
  A binary operation on two arrays first aligns them on \<open>time\<close> with an inner join:
  equal indexes are taken as they are; otherwise both are reindexed to the labels they
  share (in the order of the left operand), which xarray refuses with a \<open>ValueError\<close> for
  an index with duplicate labels.
\<close>

definition align_inner :: "'a series \<Rightarrow> 'b series \<Rightarrow> error + ('a \<times> 'b) series" where
  "align_inner a b =
     (if times a = times b then Inr (map2 (\<lambda>(t, x) (_, y). (t, (x, y))) a b)
      else if \<not> distinct (times a) \<or> \<not> distinct (times b) then Inl ValueError
      else Inr (List.map_filter (\<lambda>(t, x). map_option (\<lambda>y. (t, (x, y))) (map_of b t)) a))"

definition da_binop :: "('a \<Rightarrow> 'b \<Rightarrow> 'c) \<Rightarrow> 'a series \<Rightarrow> 'b series \<Rightarrow> error + 'c series" where
  "da_binop f a b =
     (case align_inner a b of Inl e \<Rightarrow> Inl e
      | Inr ab \<Rightarrow> Inr (da_map (\<lambda>(x, y). f x y) ab))"

text \<open>
  \<open>a.where(cond, other)\<close> keeps the entries of \<open>a\<close> where \<open>cond\<close> is true and
  puts \<open>other\<close> elsewhere. With a replacement value given, xarray joins the two
  indexes exactly: unequal indexes are a \<open>ValueError\<close>.
\<close>

definition da_where :: "'a series \<Rightarrow> bool series \<Rightarrow> 'a \<Rightarrow> error + 'a series" where
  "da_where a cond other =
     (if times a = times cond
      then Inr (map2 (\<lambda>(t, x) (_, c). (t, if c then x else other)) a cond)
      else Inl ValueError)"

text \<open>The same on arrays that share their index by construction (no alignment can fail).\<close>

definition where_same :: "'a list \<Rightarrow> bool list \<Rightarrow> 'a \<Rightarrow> 'a list" where
  "where_same a cond other = map2 (\<lambda>x c. if c then x else other) a cond"

section \<open>Point tests (\<open>qaqc.py\<close>)\<close>

definition location_test :: "fval series \<Rightarrow> fval series \<Rightarrow> error + flag series" where
  "location_test latitude longitude =
     (let flag = full_like latitude NOT_EVALUATED in
      ebind (da_binop (\<or>) (da_map (\<lambda>x. flt (fabs x) (Fin 90)) latitude)
                            (da_map (\<lambda>x. flt (fabs x) (Fin 180)) longitude)) (\<lambda>c1.
      ebind (da_where flag c1 FAIL) (\<lambda>flag.
      ebind (da_binop (\<and>) (da_map (\<lambda>x. fgt (fabs x) (Fin 90)) latitude)
                            (da_map (\<lambda>x. fgt (fabs x) (Fin 180)) longitude)) (\<lambda>c2.
      ebind (da_where flag c2 PASS) (\<lambda>flag.
      ebind (da_binop (\<or>) (da_map notnan latitude)
                            (da_map notnan longitude)) (\<lambda>c3.
      da_where flag c3 MISSING_DATA))))))"

text \<open>
  The gross range test works on one array, so every mask has the index of the data:
  only the values are modelled.
\<close>

definition gross_range_test ::
  "fval list \<Rightarrow> fval \<Rightarrow> fval \<Rightarrow> fval option \<Rightarrow> fval option \<Rightarrow> flag list" where
  "gross_range_test data sensor_min sensor_max operator_min operator_max =
     (let flag = map (\<lambda>_. NOT_EVALUATED) data;
          flag = where_same flag (map (\<lambda>d. flt d sensor_min \<and> fgt d sensor_max) data) PASS;
          flag = where_same flag (map (\<lambda>d. fgt d sensor_min \<or> flt d sensor_max) data) FAIL;
          flag = (case operator_min of None \<Rightarrow> flag
                  | Some omin \<Rightarrow>
                      if fne sensor_min omin
                      then where_same flag (map (\<lambda>d. fgt d omin \<or> flt d sensor_min) data) SUSPECT
                      else flag);
          flag = (case operator_max of None \<Rightarrow> flag
                  | Some omax \<Rightarrow>
                      if fne sensor_max omax
                      then where_same flag (map (\<lambda>d. flt d omax \<or> fgt d sensor_max) data) SUSPECT
                      else flag)
      in where_same flag (map notnan data) MISSING_DATA)"

section \<open>Windows and standard deviations\<close>

fun fsqrt :: "fval \<Rightarrow> fval" where
  "fsqrt NaN = NaN"
| "fsqrt NInf = NaN"
| "fsqrt (Fin x) = (if x < 0 then NaN else Fin (sqrt x))"
| "fsqrt PInf = PInf"

definition fsum :: "fval list \<Rightarrow> fval" where
  "fsum xs = foldl fadd (Fin 0) xs"

text \<open>
  \<open>ndarray.std()\<close>: the population standard deviation (\<open>ddof = 0\<close>) of all entries.
  A NaN entry makes the result NaN; so does an empty array (\<open>0 / 0\<close>).
\<close>

definition np_std :: "fval list \<Rightarrow> fval" where
  "np_std xs =
     (let n = Fin (real (length xs));
          mean = fdiv (fsum xs) n
      in fsqrt (fdiv (fsum (map (\<lambda>x. fmul (fsub x mean) (fsub x mean)) xs)) n))"

text \<open>The reduction xarray applies by default (\<open>skipna\<close>): the NaN entries are left out.\<close>

definition nanstd :: "fval list \<Rightarrow> fval" where
  "nanstd xs = np_std (filter notnan xs)"

definition at_or_nan :: "fval list \<Rightarrow> int \<Rightarrow> fval" where
  "at_or_nan xs j = (if 0 \<le> j \<and> j < int (length xs) then xs ! nat j else NaN)"

text \<open>
  \<open>data.rolling({'time': w}, center=c).construct('window')\<close>: one window of \<open>w\<close>
  entries per sample, filled with NaN outside the array. Without \<open>center\<close> the window
  ends at its sample; with \<open>center\<close> it starts \<open>w div 2\<close> entries before it.
\<close>

definition rolling_construct :: "nat \<Rightarrow> bool \<Rightarrow> fval list \<Rightarrow> fval list list" where
  "rolling_construct w center xs =
     map (\<lambda>i. map (\<lambda>k. at_or_nan xs (int i + int k - int (if center then w div 2 else w - 1)))
                  [0..<w])
         [0..<length xs]"

text \<open>
  \<open>data.rolling({'time': w}, center=c, min_periods=m).std()\<close>, as xarray computes it
  from the constructed windows: the standard deviation of the present entries of each
  window, NaN where fewer than \<open>m\<close> are present. (With the optional bottleneck package
  xarray computes the same numbers, but refuses a window longer than the padded series.)
\<close>

definition rolling_std :: "nat \<Rightarrow> bool \<Rightarrow> nat \<Rightarrow> fval list \<Rightarrow> fval list" where
  "rolling_std w center min_periods xs =
     map (\<lambda>win. if min_periods \<le> length (filter notnan win) then nanstd win else NaN)
         (rolling_construct w center xs)"

section \<open>Window tests (\<open>qaqc.py\<close>)\<close>

text \<open>
  The series is sorted by time first (a stable sort). A rolling window of width zero or
  less is refused by xarray with a \<open>ValueError\<close>.
\<close>

definition spkref_of :: "nat \<Rightarrow> fval list \<Rightarrow> fval list" where
  "spkref_of w vals =
     (let spkref_windows = rolling_construct w False vals;
          spkref_left = map (\<lambda>win. win ! 0) spkref_windows;
          spkref_right = map last spkref_windows
      in map2 (\<lambda>l r. fdiv (fadd l r) (Fin 2)) spkref_left spkref_right)"

definition spike_test ::
  "fval series \<Rightarrow> int \<Rightarrow> int \<Rightarrow> fval \<Rightarrow> fval \<Rightarrow> error + flag series" where
  "spike_test data0 spike_half_window std_half_window low_multiplier high_multiplier =
     (let data = sort_key fst data0;
          vals = values_of data
      in if spike_half_window * 2 + 1 \<le> 0 then Inl ValueError
         else let spkref = spkref_of (nat (spike_half_window * 2 + 1)) vals
         in if std_half_window * 2 + 1 \<le> 0 then Inl ValueError
         else let sd = rolling_std (nat (std_half_window * 2 + 1)) True 1 vals;
                  threshold_low = map (fmul low_multiplier) sd;
                  threshold_high = map (fmul high_multiplier) sd;
                  dev = map2 (\<lambda>d r. fabs (fsub d r)) vals spkref;
                  below = map2 flt dev threshold_low;
                  above = map2 fgt dev threshold_high;
                  flag = map (\<lambda>_. NOT_EVALUATED) vals;
                  flag = where_same flag (map2 (\<lambda>b a. \<not> b \<and> \<not> a) below above) PASS;
                  flag = where_same flag (map2 (\<or>) below above) HIGH_INTEREST;
                  flag = where_same flag (map Not above) FAIL;
                  flag = where_same flag (map notnan vals) MISSING_DATA;
                  flag = where_same flag (map notnan spkref) MISSING_DATA;
                  flag = where_same flag
                           (map2 (\<lambda>l h. notnan l \<or> notnan h) threshold_low threshold_high)
                           NOT_EVALUATED
              in Inr (zip (times data) flag))"

text \<open>\<open>xr.where(cond, x, flag)\<close> puts \<open>x\<close> where \<open>cond\<close> is true and keeps \<open>flag\<close> elsewhere.\<close>

definition flat_line_test :: "fval list \<Rightarrow> fval \<Rightarrow> int \<Rightarrow> int \<Rightarrow> error + flag list" where
  "flat_line_test data max_allowed_std fail_half_window_size suspect_half_window_size =
     (if fail_half_window_size * 2 + 1 \<le> 0 then Inl ValueError
      else let wf = rolling_construct (nat (fail_half_window_size * 2 + 1)) False data;
               wfstd = map nanstd wf
      in if suspect_half_window_size * 2 + 1 \<le> 0 then Inl ValueError
      else let ws = rolling_construct (nat (suspect_half_window_size * 2 + 1)) False data;
               wsstd = map nanstd ws;
               flag = map (\<lambda>_. NOT_EVALUATED) data;
               flag = map2 (\<lambda>s f. if fle s max_allowed_std then SUSPECT else f) wsstd flag;
               flag = map2 (\<lambda>s f. if fle s max_allowed_std then FAIL else f) wfstd flag;
               flag = map (\<lambda>f. if f = NOT_EVALUATED then PASS else f) flag
           in Inr flag)"

text \<open>
  The rate of change test does not sort. The rate is a plain NumPy array with a NaN put
  in front, so \<open>rate.std()\<close> is NumPy's \<open>np_std\<close> over all its entries, and the masks
  are applied by position.
\<close>

definition rate_of :: "fval series \<Rightarrow> fval list" where
  "rate_of data =
     (let vals = values_of data;
          ts = times data;
          delta_data = map2 (\<lambda>a b. fsub b a) vals (tl vals);
          delta_time = map2 (\<lambda>a b. Fin (real_of_int (b - a) / 1000000000)) ts (tl ts)
      in NaN # map2 fdiv delta_data delta_time)"

definition rate_of_change_test :: "fval series \<Rightarrow> fval \<Rightarrow> flag list" where
  "rate_of_change_test data std_multiplier =
     (let rate = rate_of data;
          vals = values_of data;
          exceeds = map (\<lambda>r. fgt (fabs r) (fmul std_multiplier (np_std rate))) rate;
          flag = map (\<lambda>_. NOT_EVALUATED) vals;
          flag = where_same flag exceeds PASS;
          flag = where_same flag (map Not exceeds) HIGH_INTEREST;
          flag = where_same flag (map notnan vals) MISSING_DATA;
          flag = where_same flag (map notnan rate) MISSING_DATA
      in flag)"

section \<open>Selecting by label\<close>

text \<open>
  \<open>a.sel(time=slice(start, stop))\<close> as pandas does it. On an index in ascending order it
  selects every sample with \<open>start \<le> t \<le> stop\<close> (no upper bound for \<open>stop = None\<close>).
  On any other index it slices by position, from the place of \<open>start\<close> to the place of
  \<open>stop\<close>: a bound that occurs in the index must occupy one run of positions, and a
  bound that does not occur is found by search only if the index is in descending
  order; otherwise it is a \<open>KeyError\<close>.
\<close>

definition label_run :: "int list \<Rightarrow> int \<Rightarrow> (nat \<times> nat) option" where
  "label_run ts l =
     (let ps = filter (\<lambda>i. ts ! i = l) [0..<length ts]
      in if ps \<noteq> [] \<and> ps = [ps ! 0..<Suc (last ps)] then Some (ps ! 0, Suc (last ps)) else None)"

definition slice_bound :: "int list \<Rightarrow> int \<Rightarrow> bool \<Rightarrow> error + nat" where
  "slice_bound ts l left =
     (if l \<in> set ts
      then (case label_run ts l of None \<Rightarrow> Inl KeyError
            | Some (a, b) \<Rightarrow> Inr (if left then a else b))
      else if sorted (rev ts) then Inr (length (filter (\<lambda>t. l < t) ts))
      else Inl KeyError)"

definition in_slice :: "int \<Rightarrow> int option \<Rightarrow> int \<Rightarrow> bool" where
  "in_slice start stop t = (start \<le> t \<and> (case stop of None \<Rightarrow> True | Some e \<Rightarrow> t \<le> e))"

definition sel_time_slice :: "'a series \<Rightarrow> int \<Rightarrow> int option \<Rightarrow> error + 'a series" where
  "sel_time_slice s start stop =
     (if sorted (times s) then Inr (filter (\<lambda>(t, _). in_slice start stop t) s)
      else ebind (slice_bound (times s) start True) (\<lambda>a.
           case stop of None \<Rightarrow> Inr (drop a s)
           | Some l \<Rightarrow> ebind (slice_bound (times s) l False) (\<lambda>b. Inr (take (b - a) (drop a s)))))"

section \<open>Period segmentation (\<open>utils/core.py\<close>)\<close>

record period =
  begin_datetime :: int
  end_datetime :: int

definition seconds :: "int \<Rightarrow> int" where
  "seconds n = n * 1000000000"

text \<open>
  The timestamps whose distance to their predecessor is more than \<open>min_gap\<close> seconds:
  what \<open>where(diff > min_gap, drop=True)\<close> keeps of a sorted index.
\<close>

fun break_points :: "int list \<Rightarrow> int \<Rightarrow> int list" where
  "break_points (a # b # ts) min_gap =
     (if b - a > seconds min_gap then b # break_points (b # ts) min_gap
      else break_points (b # ts) min_gap)"
| "break_points _ min_gap = []"

text \<open>\<open>dts.index(dt)\<close>, the first position of an element of the list.\<close>

fun index_of :: "'a list \<Rightarrow> 'a \<Rightarrow> nat" where
  "index_of [] x = 0"
| "index_of (y # ys) x = (if y = x then 0 else Suc (index_of ys x))"

text \<open>The loop over \<open>dts\<close>: the third argument is what is left of the list to visit.\<close>

fun collect_periods :: "'a series \<Rightarrow> int list \<Rightarrow> int list \<Rightarrow> error + period list" where
  "collect_periods da_time dts [] = Inr []"
| "collect_periods da_time dts (dt # rest) =
     (case sel_time_slice da_time dt
             (if dt = last dts then None
              else Some (dts ! (index_of dts dt + 1) - seconds 30)) of
        Inl e \<Rightarrow> Inl e
      | Inr period \<Rightarrow>
          (case collect_periods da_time dts rest of
             Inl e \<Rightarrow> Inl e
           | Inr periods \<Rightarrow>
               Inr (if period = [] then periods
                    else \<lparr>begin_datetime = Min (set (times period)),
                          end_datetime = Max (set (times period))\<rparr> # periods)))"

text \<open>
  The mask of the break points has no entry for the first timestamp, so \<open>where\<close>
  reindexes the series: a \<open>ValueError\<close> for duplicate timestamps. The minimum of an
  empty series is a \<open>ValueError\<close>; \<open>dts[0]\<close> on an empty list is an \<open>IndexError\<close>.
\<close>

definition split_periods :: "'a series \<Rightarrow> int \<Rightarrow> error + period list" where
  "split_periods da_time0 min_gap =
     (let da_time = sort_key fst da_time0;
          ts = times da_time
      in if \<not> distinct ts then Inl ValueError
         else let dts = break_points ts min_gap
         in if ts = [] then Inl ValueError
         else if dts = [] then Inl IndexError
         else let dts = (if Min (set ts) \<noteq> dts ! 0 then Min (set ts) # dts else dts)
         in ebind (collect_periods da_time dts dts) (\<lambda>periods.
              Inr (if periods = []
                   then [\<lparr>begin_datetime = Min (set ts), end_datetime = Max (set ts)\<rparr>]
                   else periods)))"

section \<open>Profiles (\<open>utils/profilers.py\<close>)\<close>

record profile = period +
  direction :: string

text \<open>
  One round of the loop over the periods. Selecting the first and the last sample by
  their timestamps gives one value each only if the timestamp occurs once; otherwise the
  comparison is over several values and \<open>if\<close> raises a \<open>ValueError\<close>, as the minimum
  of an empty selection does.
\<close>

definition assign_profile :: "fval series \<Rightarrow> int \<Rightarrow> period \<Rightarrow> error + profile" where
  "assign_profile cable_length buffer p =
     ebind (sel_time_slice cable_length (begin_datetime p) (Some (end_datetime p))) (\<lambda>cl.
       if cl = [] then Inl ValueError
       else let starts = filter (\<lambda>(t, _). t = Min (set (times cl))) cl;
                stops = filter (\<lambda>(t, _). t = Max (set (times cl))) cl
            in if length starts \<noteq> 1 \<or> length stops \<noteq> 1 then Inl ValueError
               else Inr \<lparr>begin_datetime = begin_datetime p - seconds buffer,
                         end_datetime = end_datetime p + seconds buffer,
                         direction = (if fgt (fsub (snd (starts ! 0)) (snd (stops ! 0))) (Fin 0)
                                      then ''down'' else ''up'')\<rparr>)"

fun assign_profiles :: "fval series \<Rightarrow> int \<Rightarrow> period list \<Rightarrow> error + profile list" where
  "assign_profiles cable_length buffer [] = Inr []"
| "assign_profiles cable_length buffer (p # ps) =
     (case assign_profile cable_length buffer p of
        Inl e \<Rightarrow> Inl e
      | Inr q \<Rightarrow>
          (case assign_profiles cable_length buffer ps of
             Inl e \<Rightarrow> Inl e
           | Inr qs \<Rightarrow> Inr (q # qs)))"

text \<open>
  The result is \<open>Some\<close> list where the function returns one and \<open>None\<close> where it falls
  off its end. \<open>flat_line_test\<close> is called with its default window sizes 5 and 3.
\<close>

definition identify_profiles ::
  "fval series \<Rightarrow> string \<Rightarrow> int \<Rightarrow> fval \<Rightarrow> int \<Rightarrow> error + profile list option" where
  "identify_profiles cable_length profile_direction buffer max_allowed_std min_gap =
     ebind (flat_line_test (values_of cable_length) max_allowed_std 5 3) (\<lambda>flags.
     ebind (split_periods
              (filter (\<lambda>(t, f). flag_value f = 1) (zip (times cable_length) flags))
              min_gap) (\<lambda>profiles.
     ebind (assign_profiles cable_length buffer profiles) (\<lambda>assigned_profiles.
       if profile_direction = ''all'' then Inr (Some assigned_profiles)
       else if profile_direction = ''up''
         then Inr (Some (filter (\<lambda>p. direction p = ''up'') assigned_profiles))
       else if profile_direction = ''down''
         then Inr (Some (filter (\<lambda>p. direction p = ''down'') assigned_profiles))
       else Inr None)))"

text \<open>A period whose two ends are timestamps of the series, in order.\<close>

definition period_ok :: "'a series \<Rightarrow> period \<Rightarrow> bool" where
  "period_ok s p =
     (begin_datetime p \<le> end_datetime p \<and> begin_datetime p \<in> set (times s) \<and>
      end_datetime p \<in> set (times s))"

section \<open>Properties\<close>

subsection \<open>Gross range\<close>

text \<open>
  C1. The baseline of the gross range test is meant to be PASS inside
  \<open>[sensor_min, sensor_max]\<close> and FAIL outside. On the series \<open>[1, 5, 12]\<close> with
  \<open>sensor_min = 0\<close>, \<open>sensor_max = 10\<close> and no operator bounds the code flags the
  sample 12, which is above \<open>sensor_max\<close>, PASS as well: the result is
  \<open>[PASS, PASS, PASS]\<close>, not \<open>[PASS, PASS, FAIL]\<close>.
\<close>

theorem gross_range_scenario_flags:
  "gross_range_test [Fin 1, Fin 5, Fin 12] (Fin 0) (Fin 10) None None = [PASS, PASS, PASS]"
  by (simp add: gross_range_test_def where_same_def fgt_def notnan_def)

subsection \<open>Location\<close>

text \<open>
  C2. A latitude of magnitude 90 or more is meant to be flagged FAIL whatever the
  longitude is. The code flags the aligned pair \<open>(lat = 91, lon = 0)\<close> PASS.
\<close>

theorem location_scenario_lat_91_passes:
  "location_test [(0, Fin 91)] [(0, Fin 0)] = Inr [(0, PASS)]"
  by (simp add: location_test_def full_like_def da_map_def da_binop_def align_inner_def
      da_where_def ebind_def times_def fgt_def notnan_def)

subsection \<open>Period segmentation\<close>

text \<open>
  C3. A series without a break point is meant to give one period over its whole range.
  On the timestamps 0 s, 10 s, 20 s with \<open>min_gap = 60\<close> the list of break points is
  empty and the code raises an \<open>IndexError\<close> on its first element instead.
\<close>

theorem split_periods_no_break_raises:
  "split_periods [(0, ()), (seconds 10, ()), (seconds 20, ())] 60 = Inl IndexError"
  by (simp add: split_periods_def times_def seconds_def)

text \<open>
  C8. The timestamps 0 s, 10 s, 20 s, 400 s, 410 s with \<open>min_gap = 60\<close> give exactly
  two periods: from 0 s to 20 s (the last timestamp not after 400 s - 30 s) and from
  400 s to 410 s.
\<close>

theorem split_periods_scenario:
  "split_periods
     [(0, ()), (seconds 10, ()), (seconds 20, ()), (seconds 400, ()), (seconds 410, ())] 60
   = Inr [\<lparr>begin_datetime = 0, end_datetime = seconds 20\<rparr>,
          \<lparr>begin_datetime = seconds 400, end_datetime = seconds 410\<rparr>]"
  by (simp add: split_periods_def times_def seconds_def sel_time_slice_def in_slice_def
      ebind_def)

subsection \<open>Segmentation: the loop over the break points\<close>

lemma sel_time_slice_sorted:
  "sorted (times s) \<Longrightarrow> sel_time_slice s a b = Inr (filter (\<lambda>(t, _). in_slice a b t) s)"
  by (simp add: sel_time_slice_def)

lemma break_points_subset: "set (break_points ts g) \<subseteq> set (tl ts)"
  by (induction ts g rule: break_points.induct) auto

lemma break_points_sorted:
  "sorted_wrt (<) ts \<Longrightarrow> sorted_wrt (<) (break_points ts g)"
proof (induction ts g rule: break_points.induct)
  case (1 a b ts g)
  have "set (break_points (b # ts) g) \<subseteq> set ts"
    using break_points_subset [of "b # ts" g] by simp
  with 1 show ?case by auto
qed simp_all

lemma index_of_append: "d \<notin> set pre \<Longrightarrow> index_of (pre @ d # r) d = length pre"
  by (induction pre) auto

lemma period_bounds:
  assumes "f \<noteq> []" and "f = filter (\<lambda>(t, _). in_slice a b t) s"
  shows "a \<le> Min (set (times f))" and "Min (set (times f)) \<le> Max (set (times f))"
    and "Min (set (times f)) \<in> set (times s)" and "Max (set (times f)) \<in> set (times s)"
    and "b = Some e \<Longrightarrow> Max (set (times f)) \<le> e"
proof -
  have ne: "set (times f) \<noteq> {}" and fin: "finite (set (times f))"
    using assms(1) by (simp_all add: times_def)
  have sub: "set (times f) \<subseteq> set (times s)"
    using assms(2) by (auto simp: times_def)
  have lo: "\<forall>t\<in>set (times f). a \<le> t"
    using assms(2) by (auto simp: times_def in_slice_def)
  show "a \<le> Min (set (times f))" using lo ne fin by simp
  show "Min (set (times f)) \<le> Max (set (times f))" using ne fin by simp
  show "Min (set (times f)) \<in> set (times s)" using Min_in [OF fin ne] sub by blast
  show "Max (set (times f)) \<in> set (times s)" using Max_in [OF fin ne] sub by blast
  show "Max (set (times f)) \<le> e" if "b = Some e"
  proof -
    have "\<forall>t\<in>set (times f). t \<le> e"
      using assms(2) that by (auto simp: times_def in_slice_def)
    then show ?thesis using ne fin by simp
  qed
qed

lemma collect_periods_props:
  assumes "sorted (times s)" and "sorted_wrt (<) (pre @ rest)"
  shows "\<exists>ps. collect_periods s (pre @ rest) rest = Inr ps
           \<and> (\<forall>p\<in>set ps. period_ok s p \<and> (\<exists>d\<in>set rest. d \<le> begin_datetime p))
           \<and> sorted_wrt (\<lambda>p q. end_datetime p < begin_datetime q) ps"
  using assms(2)
proof (induction rest arbitrary: pre)
  case Nil
  then show ?case by simp
next
  case (Cons d r)
  let ?dts = "pre @ d # r"
  have srt: "sorted_wrt (<) ((pre @ [d]) @ r)" using Cons.prems by simp
  from Cons.IH [OF srt] obtain ps where
    rec: "collect_periods s ?dts r = Inr ps"
    and ok: "\<forall>p\<in>set ps. period_ok s p \<and> (\<exists>d'\<in>set r. d' \<le> begin_datetime p)"
    and no: "sorted_wrt (\<lambda>p q. end_datetime p < begin_datetime q) ps"
    by auto
  have dist: "distinct ?dts" using Cons.prems strict_sorted_iff by blast
  then have dpre: "d \<notin> set pre" and dr: "d \<notin> set r" by auto
  have lastd: "(d = last ?dts) = (r = [])"
    using dr by (cases r rule: rev_cases) auto
  define stop where "stop = (if d = last ?dts then None else Some (?dts ! (index_of ?dts d + 1) - seconds 30))"
  define f where "f = filter (\<lambda>(t, _). in_slice d stop t) s"
  have sel: "sel_time_slice s d stop = Inr f"
    using assms(1) by (simp add: sel_time_slice_sorted f_def)
  have below: "\<forall>d'\<in>set r. d < d'" using Cons.prems by (auto simp: sorted_wrt_append)
  show ?case
  proof (cases "f = []")
    case True
    have "collect_periods s ?dts (d # r) = Inr ps"
      using sel rec True by (simp add: stop_def)
    moreover have "\<forall>p\<in>set ps. period_ok s p \<and> (\<exists>d'\<in>set (d # r). d' \<le> begin_datetime p)"
      using ok by auto
    ultimately show ?thesis using no by blast
  next
    case False
    let ?p = "\<lparr>begin_datetime = Min (set (times f)), end_datetime = Max (set (times f))\<rparr>"
    have res: "collect_periods s ?dts (d # r) = Inr (?p # ps)"
      using sel rec False by (simp add: stop_def)
    note pb = period_bounds [OF False f_def]
    have pok: "period_ok s ?p" using pb by (simp add: period_ok_def)
    have plo: "d \<le> begin_datetime ?p" using pb(1) by simp
    have sep: "\<forall>q\<in>set ps. end_datetime ?p < begin_datetime q"
    proof
      fix q assume q: "q \<in> set ps"
      then obtain d' where d': "d' \<in> set r" "d' \<le> begin_datetime q" using ok by blast
      then obtain x r' where r: "r = x # r'" by (cases r) auto
      have "index_of ?dts d = length pre" using dpre by (rule index_of_append)
      then have "?dts ! (index_of ?dts d + 1) = x" using r by (simp add: nth_append)
      then have "stop = Some (x - seconds 30)" using lastd r by (simp add: stop_def)
      then have "Max (set (times f)) \<le> x - seconds 30" by (rule pb(5))
      moreover have "x \<le> d'" using d'(1) Cons.prems r by (auto simp: sorted_wrt_append)
      ultimately show "end_datetime ?p < begin_datetime q" using d'(2) by (simp add: seconds_def)
    qed
    have "\<forall>p\<in>set (?p # ps). period_ok s p \<and> (\<exists>d'\<in>set (d # r). d' \<le> begin_datetime p)"
      using ok pok plo by auto
    moreover have "sorted_wrt (\<lambda>p q. end_datetime p < begin_datetime q) (?p # ps)"
      using sep no by simp
    ultimately show ?thesis using res by blast
  qed
qed

lemma sorted_wrt_begin:
  assumes "sorted_wrt (\<lambda>p q. end_datetime p < begin_datetime q) ps"
    and "\<forall>p\<in>set ps. begin_datetime p \<le> end_datetime p"
  shows "sorted_wrt (\<lambda>p q. begin_datetime p < begin_datetime q) (ps :: period list)"
  using assms by (induction ps) fastforce+

text \<open>
  C7. Whenever \<open>split_periods\<close> returns, the periods are in strictly ascending order
  of \<open>begin_datetime\<close>, each ends before the next begins (so no two overlap), each has
  \<open>begin_datetime \<le> end_datetime\<close>, and both ends of each are timestamps of the
  input: a candidate period that selects no sample is never emitted.
\<close>

theorem split_periods_invariant:
  assumes "split_periods s min_gap = Inr ps"
  shows "sorted_wrt (\<lambda>p q. begin_datetime p < begin_datetime q) ps \<and>
         sorted_wrt (\<lambda>p q. end_datetime p < begin_datetime q) ps \<and>
         (\<forall>p\<in>set ps. begin_datetime p \<le> end_datetime p) \<and>
         (\<forall>p\<in>set ps. begin_datetime p \<in> set (times s) \<and> end_datetime p \<in> set (times s))"
proof -
  define da where "da = sort_key fst s"
  define ts where "ts = times da"
  define dts0 where "dts0 = break_points ts min_gap"
  define dts where "dts = (if Min (set ts) \<noteq> dts0 ! 0 then Min (set ts) # dts0 else dts0)"
  have srt: "sorted ts" by (simp add: ts_def da_def times_def)
  have tset: "set (times da) = set (times s)" by (simp add: da_def times_def)
  define fin where "fin = (\<lambda>periods. Inr (if periods = []
                   then [\<lparr>begin_datetime = Min (set ts), end_datetime = Max (set ts)\<rparr>]
                   else periods) :: error + period list)"
  have eq: "split_periods s min_gap =
      (if \<not> distinct ts then Inl ValueError
       else if ts = [] then Inl ValueError
       else if dts0 = [] then Inl IndexError
       else ebind (collect_periods da dts dts) fin)"
    unfolding split_periods_def Let_def da_def ts_def dts0_def dts_def fin_def by (rule refl)
  from assms have dist: "distinct ts" and ne: "ts \<noteq> []" and dne: "dts0 \<noteq> []"
    and res: "ebind (collect_periods da dts dts) fin = Inr ps"
    unfolding eq by (simp_all split: if_splits)
  have sts: "sorted_wrt (<) ts" using srt dist strict_sorted_iff by blast
  obtain t0 tr where ts: "ts = t0 # tr" using ne by (cases ts) auto
  have min0: "Min (set ts) = t0" using srt ts by (auto intro: Min_eqI)
  have sub: "set dts0 \<subseteq> set tr" using break_points_subset [of ts min_gap] ts by (simp add: dts0_def)
  have sd0: "sorted_wrt (<) dts0" using sts by (simp add: dts0_def break_points_sorted)
  have "dts0 ! 0 \<in> set tr" using sub dne by (cases dts0) auto
  then have "t0 \<noteq> dts0 ! 0" using sts ts by auto
  then have dts_eq: "dts = t0 # dts0" by (simp add: dts_def min0)
  have sdts: "sorted_wrt (<) ([] @ dts)" using sd0 sub sts ts dts_eq by auto
  from collect_periods_props [OF _ sdts, of da] srt obtain qs where
    qs: "collect_periods da dts dts = Inr qs"
    and ok: "\<forall>p\<in>set qs. period_ok da p \<and> (\<exists>d\<in>set dts. d \<le> begin_datetime p)"
    and no: "sorted_wrt (\<lambda>p q. end_datetime p < begin_datetime q) qs"
    by (auto simp: ts_def)
  have minmax: "Min (set ts) \<le> Max (set ts)" "Min (set ts) \<in> set ts" "Max (set ts) \<in> set ts"
    using ne by (simp_all)
  have ps: "ps = (if qs = [] then [\<lparr>begin_datetime = Min (set ts), end_datetime = Max (set ts)\<rparr>] else qs)"
    using res qs by (simp add: ebind_def fin_def)
  have okps: "\<forall>p\<in>set ps. period_ok da p"
    using ok minmax by (auto simp: ps period_ok_def ts_def)
  have a: "sorted_wrt (\<lambda>p q. end_datetime p < begin_datetime q) ps"
    using no by (simp add: ps)
  then have b: "sorted_wrt (\<lambda>p q. begin_datetime p < begin_datetime q) ps"
    using okps by (intro sorted_wrt_begin) (auto simp: period_ok_def)
  have c: "\<forall>p\<in>set ps. begin_datetime p \<le> end_datetime p"
    using okps by (simp add: period_ok_def)
  have d: "\<forall>p\<in>set ps. begin_datetime p \<in> set (times s) \<and> end_datetime p \<in> set (times s)"
    using okps tset by (simp add: period_ok_def)
  from a b c d show ?thesis by blast
qed

theorem split_periods_invariant_witness:
  "split_periods [(seconds 100, ()), (0, ()), (seconds 300, ()), (seconds 120, ())] 10
     = Inr [\<lparr>begin_datetime = 0, end_datetime = 0\<rparr>,
            \<lparr>begin_datetime = seconds 120, end_datetime = seconds 120\<rparr>,
            \<lparr>begin_datetime = seconds 300, end_datetime = seconds 300\<rparr>]
   \<and> sorted_wrt (\<lambda>p q. end_datetime p < begin_datetime q)
        [\<lparr>begin_datetime = 0, end_datetime = 0\<rparr>,
         \<lparr>begin_datetime = seconds 120, end_datetime = seconds 120\<rparr>,
         \<lparr>begin_datetime = seconds 300, end_datetime = seconds 300\<rparr>]"
proof -
  have h: "split_periods [(seconds 100, ()), (0, ()), (seconds 300, ()), (seconds 120, ())] 10
     = Inr [\<lparr>begin_datetime = 0, end_datetime = 0\<rparr>,
            \<lparr>begin_datetime = seconds 120, end_datetime = seconds 120\<rparr>,
            \<lparr>begin_datetime = seconds 300, end_datetime = seconds 300\<rparr>]"
    by (simp add: split_periods_def times_def seconds_def sel_time_slice_def in_slice_def
        ebind_def)
  from split_periods_invariant [OF h] h show ?thesis by blast
qed

subsection \<open>Masks and NaN\<close>

lemma length_where_same [simp]: "length (where_same a c other) = min (length a) (length c)"
  by (simp add: where_same_def)

lemma nth_where_same:
  "i < length a \<Longrightarrow> i < length c \<Longrightarrow> where_same a c other ! i = (if c ! i then a ! i else other)"
  by (simp add: where_same_def)

lemma fadd_NaN_right [simp]: "fadd x NaN = NaN"
  by (cases x) simp_all

lemma fmul_NaN_right [simp]: "fmul x NaN = NaN"
  by (cases x) simp_all

lemma fdiv_NaN_right [simp]: "fdiv x NaN = NaN"
  by (cases x) simp_all

lemma flt_NaN_right [simp]: "flt x NaN = False"
  by (cases x) simp_all

lemma foldl_fadd_NaN [simp]: "foldl fadd NaN xs = NaN"
  by (induction xs) simp_all

subsection \<open>Rate of change\<close>

text \<open>
  The rate array starts with NaN, so NumPy's standard deviation of it is NaN and no rate
  compares greater than the threshold.
\<close>

lemma np_std_NaN_head: "np_std (NaN # xs) = NaN"
  by (simp add: np_std_def fsum_def fsub_def Let_def)

lemma length_rate_of: "length (rate_of data) = (if data = [] then 1 else length data)"
  by (cases data) (simp_all add: rate_of_def values_of_def times_def Let_def)

lemma rate_of_head: "rate_of data ! 0 = NaN"
  by (simp add: rate_of_def Let_def)

lemma rate_of_change_nth:
  assumes "i < length data"
  shows "rate_of_change_test data k ! i =
           (if notnan (values_of data ! i) \<and> notnan (rate_of data ! i) then PASS else MISSING_DATA)"
proof -
  obtain r where r: "rate_of data = NaN # r" by (simp add: rate_of_def Let_def)
  have len: "length (rate_of data) = length data" using assms by (auto simp: length_rate_of)
  have no: "\<And>x. fgt (fabs x) (fmul k (np_std (rate_of data))) = False"
    by (simp add: r np_std_NaN_head fgt_def)
  show ?thesis
    using assms len
    by (simp add: rate_of_change_test_def Let_def no nth_where_same values_of_def)
qed

lemma length_rate_of_change_test: "length (rate_of_change_test data k) = length data"
  by (cases "data = []") (simp_all add: rate_of_change_test_def Let_def length_rate_of values_of_def)

text \<open>
  C4, as the code has it. A sample is flagged MISSING_DATA exactly where its value or
  its rate is NaN, which includes the first sample; a sample whose value and rate are
  present and whose absolute rate does not exceed \<open>std_multiplier\<close> times the
  standard deviation of the present rates is flagged PASS; no sample is flagged FAIL;
  there is one flag per sample.
\<close>

theorem rate_of_change_flags:
  assumes "i < length data"
  shows "(rate_of_change_test data k ! i = MISSING_DATA \<longleftrightarrow>
            isnan (values_of data ! i) \<or> isnan (rate_of data ! i)) \<and>
         isnan (rate_of data ! 0) \<and>
         (notnan (values_of data ! i) \<and> notnan (rate_of data ! i) \<and>
            \<not> fgt (fabs (rate_of data ! i)) (fmul k (nanstd (rate_of data)))
          \<longrightarrow> rate_of_change_test data k ! i = PASS) \<and>
         rate_of_change_test data k ! i \<noteq> FAIL \<and>
         length (rate_of_change_test data k) = length data"
  using assms
  by (simp add: rate_of_change_nth rate_of_head length_rate_of_change_test notnan_def)

theorem rate_of_change_flags_witness:
  "rate_of [(0, Fin 0), (seconds 1, Fin 1), (seconds 2, Fin 0), (seconds 3, NaN)]
     = [NaN, Fin 1, Fin (- 1), NaN] \<and>
   rate_of_change_test [(0, Fin 0), (seconds 1, Fin 1), (seconds 2, Fin 0), (seconds 3, NaN)]
     (Fin 2) ! 1 = PASS \<and>
   rate_of_change_test [(0, Fin 0), (seconds 1, Fin 1), (seconds 2, Fin 0), (seconds 3, NaN)]
     (Fin 2) ! 3 = MISSING_DATA"
  using
    rate_of_change_flags
      [of 1 "[(0, Fin 0), (seconds 1, Fin 1), (seconds 2, Fin 0), (seconds 3, NaN)]" "Fin 2"]
    rate_of_change_flags
      [of 3 "[(0, Fin 0), (seconds 1, Fin 1), (seconds 2, Fin 0), (seconds 3, NaN)]" "Fin 2"]
  by (simp add: rate_of_def values_of_def times_def seconds_def fsub_def notnan_def nanstd_def
      np_std_def fsum_def fgt_def)

text \<open>
  C4 as stated fails: on three samples of value 1, one second apart, the rates of the
  second and third sample are 0, which does not exceed twice the standard deviation 0,
  and both are flagged PASS, not HIGH_INTEREST.
\<close>

theorem rate_of_change_counterexample:
  "rate_of [(0, Fin 1), (seconds 1, Fin 1), (seconds 2, Fin 1)] = [NaN, Fin 0, Fin 0] \<and>
   \<not> fgt (fabs (Fin 0)) (fmul (Fin 2) (nanstd [NaN, Fin 0, Fin 0])) \<and>
   rate_of_change_test [(0, Fin 1), (seconds 1, Fin 1), (seconds 2, Fin 1)] (Fin 2)
     = [MISSING_DATA, PASS, PASS]"
  by (simp add: rate_of_change_test_def rate_of_def values_of_def times_def seconds_def fsub_def
      notnan_def nanstd_def np_std_def fsum_def fgt_def where_same_def)

subsection \<open>Spike reference\<close>

text \<open>
  C5. The reference value is meant to come from a window centred on the sample. With
  \<open>spike_half_window = 1\<close> (window width 3) on the values 1, 2, 4, 8, 16 the code's
  reference for the third sample is \<open>(1 + 4) / 2\<close>: the window ends at the sample, and
  the sample itself is its last element. A centred window would give \<open>(2 + 8) / 2\<close>.
\<close>

theorem spike_reference_trailing:
  "spkref_of 3 [Fin 1, Fin 2, Fin 4, Fin 8, Fin 16] = [NaN, NaN, Fin (5 / 2), Fin 5, Fin 10]"
  by (simp add: spkref_of_def rolling_construct_def at_or_nan_def Let_def upt_rec)

subsection \<open>Location: alignment of the two inputs\<close>

lemma times_da_map [simp]: "times (da_map f s) = times s"
  by (induction s) (auto simp: times_def da_map_def)

lemma times_full_like [simp]: "times (full_like s v) = times s"
  by (simp add: full_like_def)

lemma times_map_filter_join:
  "times (List.map_filter (\<lambda>(t, x). map_option (\<lambda>y. (t, (x, y))) (map_of b t)) a)
     = filter (\<lambda>t. t \<in> set (times b)) (times a)"
proof (induction a)
  case Nil
  then show ?case by (simp add: times_def List.map_filter_simps)
next
  case (Cons p a)
  obtain t x where p: "p = (t, x)" by (cases p)
  show ?case
  proof (cases "map_of b t")
    case None
    then have "t \<notin> set (times b)" by (simp add: map_of_eq_None_iff times_def)
    then show ?thesis using Cons None p by (simp add: times_def List.map_filter_simps)
  next
    case (Some y)
    then have "t \<in> set (times b)" using map_of_eq_None_iff [of b t] by (simp add: times_def)
    then show ?thesis using Cons Some p by (simp add: times_def List.map_filter_simps)
  qed
qed

lemma times_zip_same:
  "times a = times b \<Longrightarrow> times (map2 (\<lambda>(t, x) (_, y). (t, g x y)) a b) = times a"
proof (induction a arbitrary: b)
  case Nil
  then show ?case by (simp add: times_def)
next
  case (Cons p a)
  then show ?case by (cases b; cases p) (auto simp: times_def)
qed

lemma da_binop_times:
  assumes "distinct (times a)" and "distinct (times b)"
  shows "\<exists>c. da_binop f a b = Inr c \<and> times c = filter (\<lambda>t. t \<in> set (times b)) (times a)"
proof (cases "times a = times b")
  case True
  then have "filter (\<lambda>t. t \<in> set (times b)) (times a) = times a" by simp
  then show ?thesis using True by (simp add: da_binop_def align_inner_def times_zip_same)
next
  case False
  then show ?thesis using assms
    by (simp add: da_binop_def align_inner_def times_map_filter_join)
qed

lemma da_where_times:
  "times a = times c \<Longrightarrow> \<exists>r. da_where a c other = Inr r \<and> times r = times a"
proof -
  assume h: "times a = times c"
  have "times (map2 (\<lambda>(t, x) (_, y). (t, if y then x else other)) a c) = times a"
    using h by (rule times_zip_same)
  then show ?thesis using h by (simp add: da_where_def)
qed

lemma da_where_misaligned: "times a \<noteq> times c \<Longrightarrow> da_where a c other = Inl ValueError"
  by (simp add: da_where_def)

text \<open>
  C9, as the code has it. The location test has no check of its own for misaligned
  inputs; what happens is decided by xarray's alignment. For inputs without duplicate
  timestamps: if every latitude timestamp also occurs in the longitude series the test
  returns one flag per latitude sample (longitude samples at other timestamps are
  dropped silently), and otherwise the first masked assignment raises a \<open>ValueError\<close>.
\<close>

theorem location_test_alignment:
  assumes "distinct (times latitude)" and "distinct (times longitude)"
  shows "(set (times latitude) \<subseteq> set (times longitude) \<longrightarrow>
            (\<exists>flags. location_test latitude longitude = Inr flags \<and> times flags = times latitude)) \<and>
         (\<not> set (times latitude) \<subseteq> set (times longitude) \<longrightarrow>
            location_test latitude longitude = Inl ValueError)"
proof -
  let ?J = "filter (\<lambda>t. t \<in> set (times longitude)) (times latitude)"
  have d1: "distinct (times (da_map f latitude))" and d2: "distinct (times (da_map g longitude))"
    for f :: "fval \<Rightarrow> bool" and g :: "fval \<Rightarrow> bool"
    using assms by simp_all
  obtain c1 where c1: "da_binop (\<or>) (da_map (\<lambda>x. flt (fabs x) (Fin 90)) latitude)
      (da_map (\<lambda>x. flt (fabs x) (Fin 180)) longitude) = Inr c1" "times c1 = ?J"
    using da_binop_times [OF d1 d2] by fastforce
  obtain c2 where c2: "da_binop (\<and>) (da_map (\<lambda>x. fgt (fabs x) (Fin 90)) latitude)
      (da_map (\<lambda>x. fgt (fabs x) (Fin 180)) longitude) = Inr c2" "times c2 = ?J"
    using da_binop_times [OF d1 d2] by fastforce
  obtain c3 where c3: "da_binop (\<or>) (da_map notnan latitude) (da_map notnan longitude) = Inr c3"
      "times c3 = ?J"
    using da_binop_times [OF d1 d2] by fastforce
  have J: "(?J = times latitude) = (set (times latitude) \<subseteq> set (times longitude))"
    by (auto simp: filter_id_conv)
  show ?thesis
  proof (cases "set (times latitude) \<subseteq> set (times longitude)")
    case True
    then have e: "?J = times latitude" using J by simp
    obtain f1 where f1: "da_where (full_like latitude NOT_EVALUATED) c1 FAIL = Inr f1"
        "times f1 = times latitude"
      using da_where_times [of "full_like latitude NOT_EVALUATED" c1 FAIL] c1(2) e by auto
    obtain f2 where f2: "da_where f1 c2 PASS = Inr f2" "times f2 = times latitude"
      using da_where_times [of f1 c2 PASS] c2(2) e f1(2) by auto
    obtain f3 where f3: "da_where f2 c3 MISSING_DATA = Inr f3" "times f3 = times latitude"
      using da_where_times [of f2 c3 MISSING_DATA] c3(2) e f2(2) by auto
    have "location_test latitude longitude = Inr f3"
      by (simp add: location_test_def Let_def ebind_def c1(1) c2(1) c3(1) f1(1) f2(1) f3(1))
    then show ?thesis using True f3(2) by simp
  next
    case False
    then have "times (full_like latitude NOT_EVALUATED) \<noteq> times c1" using J c1(2) by simp
    then have "da_where (full_like latitude NOT_EVALUATED) c1 FAIL = Inl ValueError"
      by (rule da_where_misaligned)
    then have "location_test latitude longitude = Inl ValueError"
      by (simp add: location_test_def Let_def ebind_def c1(1))
    then show ?thesis using False by simp
  qed
qed

theorem location_test_alignment_witness:
  "location_test [(0, Fin 45), (2, Fin 91)] [(0, Fin 90), (1, Fin 10), (2, Fin 200)]
     = Inr [(0, PASS), (2, FAIL)] \<and>
   location_test [(0, Fin 45), (1, Fin 10)] [(0, Fin 90)] = Inl ValueError"
  using
    location_test_alignment [of "[(0, Fin 45), (2, Fin 91)]" "[(0, Fin 90), (1, Fin 10), (2, Fin 200)]"]
    location_test_alignment [of "[(0, Fin 45), (1, Fin 10)]" "[(0, Fin 90)]"]
  by (simp add: location_test_def full_like_def da_map_def da_binop_def align_inner_def
      da_where_def ebind_def times_def fgt_def notnan_def List.map_filter_simps)

text \<open>
  C9 as stated fails: a latitude series of one sample and a longitude series of two
  samples have different lengths, and the test returns a flag instead of raising.
\<close>

theorem location_test_misaligned_counterexample:
  "length [(0::int, Fin 45)] \<noteq> length [(0::int, Fin 90), (1, Fin 10)] \<and>
   location_test [(0, Fin 45)] [(0, Fin 90), (1, Fin 10)] = Inr [(0, PASS)]"
  by (simp add: location_test_def full_like_def da_map_def da_binop_def align_inner_def
      da_where_def ebind_def times_def fgt_def notnan_def List.map_filter_simps)

subsection \<open>Profiles: an unrecognised direction\<close>

text \<open>
  C10, as the code has it. With a \<open>profile_direction\<close> other than \<open>all\<close>, \<open>up\<close> or
  \<open>down\<close>, \<open>identify_profiles\<close> returns \<open>None\<close> on every input on which the
  computation of the profiles completes, that is, on which the call with \<open>all\<close> returns
  a list; where that computation raises, the same error is raised.
\<close>

theorem identify_profiles_unknown_direction:
  assumes "profile_direction \<notin> {''all'', ''up'', ''down''}"
  shows "identify_profiles cable_length profile_direction buffer max_allowed_std min_gap =
           (case identify_profiles cable_length ''all'' buffer max_allowed_std min_gap of
              Inl e \<Rightarrow> Inl e
            | Inr _ \<Rightarrow> Inr None)"
  using assms by (simp add: identify_profiles_def ebind_def split: sum.splits)

lemma flat_line_example:
  "flat_line_test [Fin 0, Fin 1, Fin 3, Fin 7] (Fin 0) 5 3 = Inr [FAIL, PASS, PASS, PASS]"
  by (simp add: flat_line_test_def rolling_construct_def nanstd_def np_std_def at_or_nan_def
      fsum_def fle_def feq_def fsub_def notnan_def Let_def upt_rec)

theorem identify_profiles_unknown_direction_witness:
  "identify_profiles [(0, Fin 0), (seconds 1, Fin 1), (seconds 400, Fin 3), (seconds 401, Fin 7)]
     ''all'' 10 (Fin 0) 180
     = Inr (Some [\<lparr>begin_datetime = seconds (- 9), end_datetime = seconds 11, direction = ''up''\<rparr>,
                  \<lparr>begin_datetime = seconds 390, end_datetime = seconds 411, direction = ''up''\<rparr>]) \<and>
   identify_profiles [(0, Fin 0), (seconds 1, Fin 1), (seconds 400, Fin 3), (seconds 401, Fin 7)]
     ''sideways'' 10 (Fin 0) 180 = Inr None"
proof -
  have a: "identify_profiles [(0, Fin 0), (seconds 1, Fin 1), (seconds 400, Fin 3), (seconds 401, Fin 7)]
     ''all'' 10 (Fin 0) 180
     = Inr (Some [\<lparr>begin_datetime = seconds (- 9), end_datetime = seconds 11, direction = ''up''\<rparr>,
                  \<lparr>begin_datetime = seconds 390, end_datetime = seconds 411, direction = ''up''\<rparr>])"
    unfolding identify_profiles_def
    by (simp add: values_of_def times_def flat_line_example ebind_def split_periods_def
        assign_profile_def sel_time_slice_def in_slice_def seconds_def fgt_def fsub_def)
  show ?thesis
    using identify_profiles_unknown_direction [of "''sideways''"
        "[(0, Fin 0), (seconds 1, Fin 1), (seconds 400, Fin 3), (seconds 401, Fin 7)]" 10 "Fin 0" 180] a
    by simp
qed

text \<open>
  C10 as stated fails for "every input series": on a series of one sample the flat line
  test leaves no sample in the profiling state, \<open>split_periods\<close> raises, and so does
  \<open>identify_profiles\<close>, whatever the direction.
\<close>

theorem identify_profiles_raises_counterexample:
  "''sideways'' \<notin> {''all'', ''up'', ''down''} \<and>
   identify_profiles [(0, Fin 5)] ''sideways'' 10 (Fin (2 / 100)) 180 = Inl ValueError"
  by (simp add: identify_profiles_def flat_line_test_def rolling_construct_def nanstd_def
      np_std_def at_or_nan_def fsum_def fle_def feq_def fsub_def notnan_def Let_def upt_rec
      split_periods_def times_def values_of_def ebind_def)

subsection \<open>Missing samples\<close>

lemma gross_range_missing:
  "i < length data \<Longrightarrow> isnan (data ! i) \<Longrightarrow>
   gross_range_test data smin smax omin omax ! i = MISSING_DATA"
  by (simp add: gross_range_test_def Let_def nth_where_same notnan_def split: option.splits)

lemma rate_of_change_missing:
  "i < length data \<Longrightarrow> isnan (values_of data ! i) \<Longrightarrow>
   rate_of_change_test data k ! i = MISSING_DATA"
  by (simp add: rate_of_change_nth notnan_def)

lemma length_rolling_construct [simp]: "length (rolling_construct w c xs) = length xs"
  by (simp add: rolling_construct_def)

lemma length_rolling_std [simp]: "length (rolling_std w c m xs) = length xs"
  by (simp add: rolling_std_def)

lemma length_spkref_of [simp]: "length (spkref_of w xs) = length xs"
  by (simp add: spkref_of_def Let_def)

lemma spike_missing:
  assumes "spike_test data h s lo hi = Inr flags" and "i < length data"
    and "isnan (values_of (sort_key fst data) ! i)"
  shows "snd (flags ! i) =
           (if isnan (fmul lo (rolling_std (nat (s * 2 + 1)) True 1 (values_of (sort_key fst data)) ! i))
              \<and> isnan (fmul hi (rolling_std (nat (s * 2 + 1)) True 1 (values_of (sort_key fst data)) ! i))
            then NOT_EVALUATED else MISSING_DATA)"
proof -
  have len: "length (values_of (sort_key fst data)) = length data"
    by (simp add: values_of_def)
  from assms(1) have ok: "\<not> h * 2 + 1 \<le> 0" "\<not> s * 2 + 1 \<le> 0"
    by (auto simp: spike_test_def Let_def split: if_splits)
  show ?thesis
    using assms ok len
    by (auto simp: spike_test_def Let_def nth_where_same notnan_def times_def)
qed

lemma flat_line_flags:
  assumes "flat_line_test data m fh sh = Inr flags" and "i < length data"
  shows "flags ! i = PASS \<or> flags ! i = SUSPECT \<or> flags ! i = FAIL"
proof -
  from assms(1) have ok: "\<not> fh * 2 + 1 \<le> 0" "\<not> sh * 2 + 1 \<le> 0"
    by (auto simp: flat_line_test_def Let_def split: if_splits)
  show ?thesis
    using assms ok by (auto simp: flat_line_test_def Let_def split: if_splits)
qed

lemma da_binop_same:
  "times a = times b \<Longrightarrow> da_binop f a b = Inr (map2 (\<lambda>(t, x) (_, y). (t, f x y)) a b)"
  by (auto simp: da_binop_def align_inner_def da_map_def split: prod.splits)

lemma location_both_missing:
  assumes "times latitude = times longitude" and "i < length latitude"
    and "isnan (snd (latitude ! i))" and "isnan (snd (longitude ! i))"
  shows "\<exists>flags. location_test latitude longitude = Inr flags \<and> length flags = length latitude
           \<and> snd (flags ! i) = MISSING_DATA"
proof -
  have len: "length longitude = length latitude"
    using assms(1) by (metis length_map times_def)
  have t: "times (da_map f latitude) = times (da_map g longitude)" for f g :: "fval \<Rightarrow> bool"
    using assms(1) by simp
  define c1 where "c1 = map2 (\<lambda>(t, x) (_, y). (t, x \<or> y))
      (da_map (\<lambda>x. flt (fabs x) (Fin 90)) latitude) (da_map (\<lambda>x. flt (fabs x) (Fin 180)) longitude)"
  define c2 where "c2 = map2 (\<lambda>(t, x) (_, y). (t, x \<and> y))
      (da_map (\<lambda>x. fgt (fabs x) (Fin 90)) latitude) (da_map (\<lambda>x. fgt (fabs x) (Fin 180)) longitude)"
  define c3 where "c3 = map2 (\<lambda>(t, x) (_, y). (t, x \<or> y))
      (da_map notnan latitude) (da_map notnan longitude)"
  have tc: "times c1 = times latitude" "times c2 = times latitude" "times c3 = times latitude"
    using t by (simp_all add: c1_def c2_def c3_def times_zip_same)
  obtain f1 where f1: "da_where (full_like latitude NOT_EVALUATED) c1 FAIL = Inr f1"
      "times f1 = times latitude"
    using da_where_times [of "full_like latitude NOT_EVALUATED" c1 FAIL] tc by auto
  obtain f2 where f2: "da_where f1 c2 PASS = Inr f2" "times f2 = times latitude"
    using da_where_times [of f1 c2 PASS] tc f1(2) by auto
  define f3 where "f3 = map2 (\<lambda>(t, x) (_, c). (t, if c then x else MISSING_DATA)) f2 c3"
  have w3: "da_where f2 c3 MISSING_DATA = Inr f3"
    using f2(2) tc by (simp add: da_where_def f3_def)
  have res: "location_test latitude longitude = Inr f3"
    by (simp add: location_test_def Let_def ebind_def da_binop_same [OF t]
        c1_def [symmetric] c2_def [symmetric] c3_def [symmetric] f1(1) f2(1) w3)
  have l2: "length f2 = length latitude" using f2(2) by (metis length_map times_def)
  have l3: "length c3 = length latitude" using tc(3) by (metis length_map times_def)
  have "snd (c3 ! i) = False"
    using assms(2-4) len by (simp add: c3_def da_map_def notnan_def case_prod_unfold)
  then have "snd (f3 ! i) = MISSING_DATA"
    using assms(2) l2 l3 by (simp add: f3_def case_prod_unfold)
  moreover have "length f3 = length latitude" using l2 l3 by (simp add: f3_def)
  ultimately show ?thesis using res by blast
qed

text \<open>
  C6, as the code has it, test by test, for a sample \<open>i\<close> whose value is NaN:
  the gross range test and the rate of change test flag it MISSING_DATA, whatever the
  parameters; the spike test flags it MISSING_DATA unless both of its thresholds are
  NaN, where its last mask sets NOT_EVALUATED; the location test flags it MISSING_DATA
  when both the latitude and the longitude are NaN; the flat line test has no
  MISSING_DATA tier: each of its flags is PASS, SUSPECT or FAIL.
\<close>

theorem missing_dominance_by_test:
  "(i < length gdata \<and> isnan (gdata ! i) \<longrightarrow>
      gross_range_test gdata smin smax omin omax ! i = MISSING_DATA) \<and>
   (i < length rdata \<and> isnan (values_of rdata ! i) \<longrightarrow>
      rate_of_change_test rdata k ! i = MISSING_DATA) \<and>
   (spike_test sdata h s lo hi = Inr sflags \<and> i < length sdata \<and>
      isnan (values_of (sort_key fst sdata) ! i) \<longrightarrow>
      snd (sflags ! i) =
        (if isnan (fmul lo (rolling_std (nat (s * 2 + 1)) True 1 (values_of (sort_key fst sdata)) ! i))
            \<and> isnan (fmul hi (rolling_std (nat (s * 2 + 1)) True 1 (values_of (sort_key fst sdata)) ! i))
         then NOT_EVALUATED else MISSING_DATA)) \<and>
   (times latitude = times longitude \<and> i < length latitude \<and>
      isnan (snd (latitude ! i)) \<and> isnan (snd (longitude ! i)) \<longrightarrow>
      (\<exists>flags. location_test latitude longitude = Inr flags \<and>
               length flags = length latitude \<and> snd (flags ! i) = MISSING_DATA)) \<and>
   (flat_line_test fdata m fh sh = Inr fflags \<and> i < length fdata \<longrightarrow>
      fflags ! i = PASS \<or> fflags ! i = SUSPECT \<or> fflags ! i = FAIL)"
proof -
  have g: "i < length gdata \<and> isnan (gdata ! i) \<longrightarrow>
      gross_range_test gdata smin smax omin omax ! i = MISSING_DATA"
    by (simp add: gross_range_missing)
  have r: "i < length rdata \<and> isnan (values_of rdata ! i) \<longrightarrow>
      rate_of_change_test rdata k ! i = MISSING_DATA"
    by (simp add: rate_of_change_missing)
  have sp: "spike_test sdata h s lo hi = Inr sflags \<and> i < length sdata \<and>
      isnan (values_of (sort_key fst sdata) ! i) \<longrightarrow>
      snd (sflags ! i) =
        (if isnan (fmul lo (rolling_std (nat (s * 2 + 1)) True 1 (values_of (sort_key fst sdata)) ! i))
            \<and> isnan (fmul hi (rolling_std (nat (s * 2 + 1)) True 1 (values_of (sort_key fst sdata)) ! i))
         then NOT_EVALUATED else MISSING_DATA)"
    by (intro impI, elim conjE, rule spike_missing; assumption)
  have l: "times latitude = times longitude \<and> i < length latitude \<and>
      isnan (snd (latitude ! i)) \<and> isnan (snd (longitude ! i)) \<longrightarrow>
      (\<exists>flags. location_test latitude longitude = Inr flags \<and>
               length flags = length latitude \<and> snd (flags ! i) = MISSING_DATA)"
    by (intro impI, elim conjE, rule location_both_missing; assumption)
  have f: "flat_line_test fdata m fh sh = Inr fflags \<and> i < length fdata \<longrightarrow>
      fflags ! i = PASS \<or> fflags ! i = SUSPECT \<or> fflags ! i = FAIL"
    by (intro impI, elim conjE, rule flat_line_flags; assumption)
  show ?thesis by (intro conjI g r sp l f)
qed

theorem missing_dominance_by_test_witness:
  "gross_range_test [Fin 1, NaN] (Fin 0) (Fin 10) None None ! 1 = MISSING_DATA \<and>
   rate_of_change_test [(0, Fin 1), (seconds 1, NaN)] (Fin 2) ! 1 = MISSING_DATA \<and>
   spike_test [(0, Fin 1), (1, NaN), (2, Fin 3)] 1 1 (Fin 3) (Fin 5)
     = Inr [(0, MISSING_DATA), (1, MISSING_DATA), (2, FAIL)] \<and>
   location_test [(0, Fin 1), (1, NaN)] [(0, Fin 2), (1, NaN)]
     = Inr [(0, PASS), (1, MISSING_DATA)] \<and>
   flat_line_test [Fin 1, NaN] (Fin 0) 5 3 = Inr [FAIL, FAIL]"
proof -
  have es: "spike_test [(0, Fin 1), (1, NaN), (2, Fin 3)] 1 1 (Fin 3) (Fin 5)
     = Inr [(0, MISSING_DATA), (1, MISSING_DATA), (2, FAIL)]"
    by (simp add: spike_test_def spkref_of_def rolling_std_def rolling_construct_def nanstd_def
        np_std_def at_or_nan_def fsum_def fsub_def fgt_def notnan_def where_same_def
        values_of_def times_def Let_def upt_rec)
  have ef: "flat_line_test [Fin 1, NaN] (Fin 0) 5 3 = Inr [FAIL, FAIL]"
    by (simp add: flat_line_test_def rolling_construct_def nanstd_def np_std_def at_or_nan_def
        fsum_def fle_def feq_def fsub_def notnan_def Let_def upt_rec)
  have el: "location_test [(0, Fin 1), (1, NaN)] [(0, Fin 2), (1, NaN)]
     = Inr [(0, PASS), (1, MISSING_DATA)]"
    by (simp add: location_test_def full_like_def da_map_def da_binop_def align_inner_def
        da_where_def ebind_def times_def fgt_def notnan_def)
  show ?thesis
    using missing_dominance_by_test [where i = 1 and gdata = "[Fin 1, NaN]" and smin = "Fin 0"
        and smax = "Fin 10" and omin = None and omax = None
        and rdata = "[(0, Fin 1), (seconds 1, NaN)]" and k = "Fin 2"
        and sdata = "[(0, Fin 1), (1, NaN), (2, Fin 3)]" and h = 1 and s = 1
        and lo = "Fin 3" and hi = "Fin 5"
        and sflags = "[(0, MISSING_DATA), (1, MISSING_DATA), (2, FAIL)]"
        and latitude = "[(0, Fin 1), (1, NaN)]" and longitude = "[(0, Fin 2), (1, NaN)]"
        and fdata = "[Fin 1, NaN]" and m = "Fin 0" and fh = 5 and sh = 3
        and fflags = "[FAIL, FAIL]"]
      es ef el
    by (simp add: values_of_def times_def)
qed

text \<open>
  C6 as stated fails: the flat line test flags the missing third sample of
  \<open>[1, 2, NaN]\<close> PASS, and the location test flags a missing latitude with the
  longitude 0 PASS.
\<close>

theorem missing_dominance_counterexample:
  "isnan ([Fin 1, Fin 2, NaN] ! 2) \<and>
   flat_line_test [Fin 1, Fin 2, NaN] (Fin 0) 5 3 = Inr [FAIL, PASS, PASS] \<and>
   isnan (snd ([(0::int, NaN)] ! 0)) \<and>
   location_test [(0, NaN)] [(0, Fin 0)] = Inr [(0, PASS)]"
  by (simp add: flat_line_test_def rolling_construct_def nanstd_def np_std_def at_or_nan_def
      fsum_def fle_def feq_def fsub_def notnan_def Let_def upt_rec
      location_test_def full_like_def da_map_def da_binop_def align_inner_def
      da_where_def ebind_def times_def fgt_def)

subsection \<open>The scenarios in general\<close>

text \<open>
  The gross range scenario is an instance of a general fact: with
  \<open>sensor_min < sensor_max\<close> and no operator bounds, the two baseline masks never
  leave FAIL on a sample; every present sample is flagged PASS.
\<close>

lemma gross_range_no_fail:
  assumes "flt sensor_min sensor_max" and "i < length data"
  shows "gross_range_test data sensor_min sensor_max None None ! i =
           (if isnan (data ! i) then MISSING_DATA else PASS)"
proof -
  have "\<not> (flt d sensor_min \<and> fgt d sensor_max)" for d
    using assms(1) by (cases d; cases sensor_min; cases sensor_max) (auto simp: fgt_def)
  moreover have "notnan d \<Longrightarrow> fgt d sensor_min \<or> flt d sensor_max" for d
    using assms(1) by (cases d; cases sensor_min; cases sensor_max) (auto simp: fgt_def notnan_def)
  ultimately show ?thesis
    using assms(2)
    by (auto simp: gross_range_test_def Let_def nth_where_same notnan_def)
qed

text \<open>
  So is the segmentation scenario: whenever the sorted series has no break point,
  \<open>split_periods\<close> raises and returns no period.
\<close>

lemma split_periods_no_break:
  assumes "break_points (times (sort_key fst s)) min_gap = []"
  shows "split_periods s min_gap = Inl ValueError \<or> split_periods s min_gap = Inl IndexError"
  using assms by (simp add: split_periods_def Let_def)

end
